theory Spec2Isabelle
  imports Main
begin

section \<open>The split delta of the model engine\<close>

text \<open>
  The development embeds the module \<^verbatim>\<open>engine/model/delta/splitdelta\<close>: the class
  \<^verbatim>\<open>SplitDelta\<close> (its getters \<^verbatim>\<open>position\<close>, \<^verbatim>\<open>_cloneOperation\<close>, \<^verbatim>\<open>_moveOperation\<close>,
  \<^verbatim>\<open>_reverseDeltaClass\<close>, \<^verbatim>\<open>className\<close>, \<^verbatim>\<open>_priority\<close> and its method \<^verbatim>\<open>getReversed\<close>),
  the batch method registered as \<^verbatim>\<open>split\<close>, and the registration of the class in the
  delta factory.

  The module imports \<^verbatim>\<open>Delta\<close>, \<^verbatim>\<open>DeltaFactory\<close>, \<^verbatim>\<open>Batch\<close>, \<^verbatim>\<open>Position\<close>, \<^verbatim>\<open>Element\<close>,
  \<^verbatim>\<open>InsertOperation\<close>, \<^verbatim>\<open>MoveOperation\<close> and \<^verbatim>\<open>MergeDelta\<close> from other modules of the
  engine. Their data is modelled after section 3 of the specification of the engine,
  their methods after its sections 4.1 to 4.6; each such definition says so.
  \<^verbatim>\<open>Document.applyOperation\<close> and the reversal of a single operation are parameters of
  the functions that call them, so that the properties of the module hold for every
  implementation of the two.
\<close>

subsection \<open>Data model\<close>

text \<open>
  JavaScript objects have identity and are mutated in place, so elements, deltas and
  batches live in heaps indexed by references. A leading underscore of a JavaScript
  name is dropped (\<^verbatim>\<open>_priority\<close> becomes \<open>priority\<close>).
\<close>

type_synonym node_id = nat
type_synonym delta_id = nat
type_synonym batch_id = nat

type_synonym attribute_list = "(string \<times> string) list"

text \<open>A child of an element: a reference to an element, or a run of text.\<close>

datatype child = ElementChild node_id | TextRun string

text \<open>
  Element: name, attributes, ordered children, and the back-reference to the parent
  (\<open>None\<close> is JavaScript's \<^verbatim>\<open>null\<close>: the element is a root or is detached).
\<close>

record element =
  name :: string
  attributes :: attribute_list
  children :: "child list"
  parent :: "node_id option"

text \<open>Position: a root and a path of offsets from that root.\<close>

record position =
  root :: node_id
  path :: "nat list"

text \<open>
  The operation variants the module constructs. \<^verbatim>\<open>howMany\<close> is a JavaScript number
  computed by a subtraction, hence an integer that may be negative.
\<close>

datatype operation_kind =
    InsertOperation position "node_id list"
  | MoveOperation position int position

text \<open>
  An operation carries the version it was authored against. The module assigns
  \<^verbatim>\<open>isSticky\<close> to operations of any variant (\<^verbatim>\<open>delta.operations[ 0 ].isSticky = true\<close>),
  which in JavaScript adds the property where it is missing; the flag is therefore a
  field of every operation, \<open>False\<close> where it was never set to \<^verbatim>\<open>true\<close>.
  Operations are not mutated once they are in a delta of a batch or in the history of
  the document, so they are kept as values.
\<close>

record operation =
  baseVersion :: nat
  kind :: operation_kind
  isSticky :: bool

text \<open>The delta classes the module names.\<close>

datatype delta_name = Delta | MergeDelta | SplitDelta

text \<open>A delta object: its class, its operations in order, and its owning batch.\<close>

record delta =
  delta_class :: delta_name
  operations :: "operation list"
  batch :: "batch_id option"

record batch_obj =
  deltas :: "delta_id list"

text \<open>
  The document: version counter, applied operations, and the heap of element objects
  with its allocation counter. Root elements are the elements without parent; an
  element created by \<^verbatim>\<open>new Element\<close> is in the same heap, detached until an operation
  attaches it.
\<close>

record document =
  version :: nat
  history :: "operation list"
  nodes :: "node_id \<Rightarrow> element"
  next_node :: node_id

text \<open>
  The state a batch method runs in: the document of the batch, the batch objects,
  and the heap of delta objects with its allocation counter.
\<close>

record state =
  document :: document
  batches :: "batch_id \<Rightarrow> batch_obj"
  delta_heap :: "delta_id \<Rightarrow> delta"
  next_delta :: delta_id

text \<open>
  Errors. \<^verbatim>\<open>CKEditorError\<close> carries the message the source passes to the constructor;
  \<open>InvalidLocation\<close> and \<open>VersionMismatch\<close> are the errors sections 4.1 and 4.2 of the
  specification name for the position constructors and for operation application;
  \<open>TypeError\<close> is what JavaScript raises on a property access on \<^verbatim>\<open>undefined\<close>.
\<close>

datatype error = CKEditorError string | InvalidLocation | VersionMismatch | TypeError

text \<open>A JavaScript value that may be \<^verbatim>\<open>null\<close> or \<^verbatim>\<open>undefined\<close>.\<close>

datatype 'a js_value = Null | Undefined | Value 'a

subsection \<open>Elements and positions\<close>

text \<open>A text run occupies one offset per character, an element one offset.\<close>

fun width :: "child \<Rightarrow> nat" where
  "width (ElementChild _) = 1"
| "width (TextRun s) = length s"

text \<open>
  Modelled from the spec: \<^verbatim>\<open>Element.maxOffset\<close> (module \<^verbatim>\<open>element\<close>): the total width
  occupied by the children, the sum of their widths.
\<close>

definition maxOffset :: "element \<Rightarrow> nat" where
  "maxOffset e = sum_list (map width (children e))"

text \<open>
  Modelled from the spec: \<^verbatim>\<open>new Element( name, attributes )\<close> (module \<^verbatim>\<open>element\<close>): a
  fresh element object with the given name and attributes, no children and no parent.
\<close>

definition new_Element :: "string \<Rightarrow> attribute_list \<Rightarrow> document \<Rightarrow> node_id \<times> document" where
  "new_Element n as d =
     (next_node d,
      d\<lparr>nodes := (nodes d)(next_node d :=
            \<lparr>name = n, attributes = as, children = [], parent = None\<rparr>),
        next_node := Suc (next_node d)\<rparr>)"

text \<open>The child that occupies a given offset, if there is one.\<close>

fun childAt :: "child list \<Rightarrow> nat \<Rightarrow> child option" where
  "childAt [] k = None"
| "childAt (c # cs) k = (if k < width c then Some c else childAt cs (k - width c))"

text \<open>The offset at which the element \<open>e\<close> starts among the given children.\<close>

fun startOffset :: "child list \<Rightarrow> node_id \<Rightarrow> nat option" where
  "startOffset [] e = None"
| "startOffset (c # cs) e =
     (if c = ElementChild e then Some 0
      else map_option (\<lambda>k. width c + k) (startOffset cs e))"

text \<open>
  The root of an element and the path from that root to it, following the parent
  references upwards. The walk is bounded by the number of allocated elements, which
  no chain of parents in a tree exceeds; it gives \<open>None\<close> where the references do
  not form a tree.
\<close>

fun ancestry :: "nat \<Rightarrow> (node_id \<Rightarrow> element) \<Rightarrow> node_id \<Rightarrow> (node_id \<times> nat list) option" where
  "ancestry 0 h e = None"
| "ancestry (Suc fuel) h e =
     (case parent (h e) of
        None \<Rightarrow> Some (e, [])
      | Some p \<Rightarrow>
          (case startOffset (children (h p)) e of
             None \<Rightarrow> None
           | Some k \<Rightarrow>
               (case ancestry fuel h p of
                  None \<Rightarrow> None
                | Some (r, ks) \<Rightarrow> Some (r, ks @ [k]))))"

definition getPath :: "document \<Rightarrow> node_id \<Rightarrow> (node_id \<times> nat list) option" where
  "getPath d e = ancestry (next_node d) (nodes d) e"

text \<open>
  Modelled from the spec: \<^verbatim>\<open>Position.createFromParentAndOffset( parent, offset )\<close>
  (module \<^verbatim>\<open>position\<close>): the position in the root of \<open>parent\<close> whose path is the path of
  \<open>parent\<close> followed by \<open>offset\<close>; it fails with \<open>InvalidLocation\<close> when the parent or the
  offset does not exist in the tree.
\<close>

definition createFromParentAndOffset :: "document \<Rightarrow> node_id \<Rightarrow> nat \<Rightarrow> error + position" where
  "createFromParentAndOffset d p k =
     (case getPath d p of
        None \<Rightarrow> Inl InvalidLocation
      | Some (r, ks) \<Rightarrow>
          if k \<le> maxOffset (nodes d p) then Inr \<lparr>root = r, path = ks @ [k]\<rparr>
          else Inl InvalidLocation)"

text \<open>
  Modelled from the spec: \<^verbatim>\<open>Position.createAfter( element )\<close> (module \<^verbatim>\<open>position\<close>): the
  position in the parent of the element just behind it, one offset after the offset
  at which the element starts; it fails with \<open>InvalidLocation\<close> when the element has no
  parent or is not among the children of its parent.
\<close>

definition createAfter :: "document \<Rightarrow> node_id \<Rightarrow> error + position" where
  "createAfter d e =
     (case parent (nodes d e) of
        None \<Rightarrow> Inl InvalidLocation
      | Some p \<Rightarrow>
          (case startOffset (children (nodes d p)) e of
             None \<Rightarrow> Inl InvalidLocation
           | Some k \<Rightarrow> createFromParentAndOffset d p (k + 1)))"

text \<open>The element reached from \<open>e\<close> by descending through the given offsets.\<close>

fun descend :: "(node_id \<Rightarrow> element) \<Rightarrow> node_id \<Rightarrow> nat list \<Rightarrow> node_id option" where
  "descend h e [] = Some e"
| "descend h e (k # ks) =
     (case childAt (children (h e)) k of
        Some (ElementChild c) \<Rightarrow> descend h c ks
      | _ \<Rightarrow> None)"

text \<open>
  Modelled from the spec: the getters \<^verbatim>\<open>Position.parent\<close> and \<^verbatim>\<open>Position.offset\<close> (module
  \<^verbatim>\<open>position\<close>): the parent is the element the path without its last entry leads to
  from the root, \<open>None\<close> where the path is empty or leads to no element; the offset is
  the last entry of the path.
\<close>

definition Position_parent :: "document \<Rightarrow> position \<Rightarrow> node_id option" where
  "Position_parent d p =
     (case path p of [] \<Rightarrow> None | _ \<Rightarrow> descend (nodes d) (root p) (butlast (path p)))"

definition Position_offset :: "position \<Rightarrow> nat option" where
  "Position_offset p = (case path p of [] \<Rightarrow> None | _ \<Rightarrow> Some (last (path p)))"

subsection \<open>Operations, deltas and batches\<close>

text \<open>
  Modelled from the spec: the constructors \<^verbatim>\<open>new InsertOperation( position, nodes,
  baseVersion )\<close> and \<^verbatim>\<open>new MoveOperation( sourcePosition, howMany, targetPosition,
  baseVersion )\<close> (modules \<^verbatim>\<open>insertoperation\<close>, \<^verbatim>\<open>moveoperation\<close>): they record their
  arguments; a single node stands for the list holding it; a new move is not sticky.
\<close>

definition new_InsertOperation :: "position \<Rightarrow> node_id \<Rightarrow> nat \<Rightarrow> operation" where
  "new_InsertOperation p n v =
     \<lparr>baseVersion = v, kind = InsertOperation p [n], isSticky = False\<rparr>"

definition new_MoveOperation :: "position \<Rightarrow> int \<Rightarrow> position \<Rightarrow> nat \<Rightarrow> operation" where
  "new_MoveOperation src n tgt v =
     \<lparr>baseVersion = v, kind = MoveOperation src n tgt, isSticky = False\<rparr>"

text \<open>
  The property \<^verbatim>\<open>sourcePosition\<close> of an operation object: a move has it, on any other
  object the read gives \<^verbatim>\<open>undefined\<close>.
\<close>

fun sourcePosition :: "operation \<Rightarrow> position js_value" where
  "sourcePosition op =
     (case kind op of
        MoveOperation src _ _ \<Rightarrow> Value src
      | InsertOperation _ _ \<Rightarrow> Undefined)"

text \<open>
  Modelled from the spec: \<^verbatim>\<open>Delta.addOperation( operation )\<close> (module \<^verbatim>\<open>delta\<close>): the
  operation is appended to the operations of the delta object.
\<close>

definition addOperation :: "delta_id \<Rightarrow> operation \<Rightarrow> state \<Rightarrow> state" where
  "addOperation dl op s =
     s\<lparr>delta_heap := (delta_heap s)(dl :=
          (delta_heap s dl)\<lparr>operations := operations (delta_heap s dl) @ [op]\<rparr>)\<rparr>"

text \<open>
  Modelled from the spec: \<^verbatim>\<open>Batch.addDelta( delta )\<close> (module \<^verbatim>\<open>batch\<close>): the delta is
  appended to the deltas of the batch and its back-reference is set to the batch.
\<close>

definition addDelta :: "batch_id \<Rightarrow> delta_id \<Rightarrow> state \<Rightarrow> state" where
  "addDelta b dl s =
     s\<lparr>batches := (batches s)(b := (batches s b)\<lparr>deltas := deltas (batches s b) @ [dl]\<rparr>),
       delta_heap := (delta_heap s)(dl := (delta_heap s dl)\<lparr>batch := Some b\<rparr>)\<rparr>"

text \<open>\<^verbatim>\<open>new SplitDelta()\<close>: a fresh delta object of the class, without operations.\<close>

definition new_SplitDelta :: "state \<Rightarrow> delta_id \<times> state" where
  "new_SplitDelta s =
     (next_delta s,
      s\<lparr>delta_heap := (delta_heap s)(next_delta s :=
            \<lparr>delta_class = SplitDelta, operations = [], batch = None\<rparr>),
        next_delta := Suc (next_delta s)\<rparr>)"

subsection \<open>The class SplitDelta\<close>

text \<open>
  \<^verbatim>\<open>get _cloneOperation()\<close> and \<^verbatim>\<open>get _moveOperation()\<close>:
  \<^verbatim>\<open>this.operations[ i ] || null\<close>. A read behind the end of a JavaScript array gives
  \<^verbatim>\<open>undefined\<close>, which \<^verbatim>\<open>||\<close> turns into \<^verbatim>\<open>null\<close>; an operation object is never falsy.
  \<open>None\<close> stands for \<^verbatim>\<open>null\<close>.
\<close>

definition cloneOperation :: "delta \<Rightarrow> operation option" where
  "cloneOperation this =
     (if 0 < length (operations this) then Some (operations this ! 0) else None)"

definition moveOperation :: "delta \<Rightarrow> operation option" where
  "moveOperation this =
     (if 1 < length (operations this) then Some (operations this ! 1) else None)"

text \<open>
  \<^verbatim>\<open>get position()\<close>:
  \<^verbatim>\<open>this._moveOperation ? this._moveOperation.sourcePosition : null\<close>.
\<close>

definition SplitDelta_position :: "delta \<Rightarrow> position js_value" where
  "SplitDelta_position this =
     (case moveOperation this of
        Some op \<Rightarrow> sourcePosition op
      | None \<Rightarrow> Null)"

text \<open>\<^verbatim>\<open>get _reverseDeltaClass()\<close>, \<^verbatim>\<open>static get className()\<close>, \<^verbatim>\<open>static get _priority()\<close>.\<close>

definition SplitDelta_reverseDeltaClass :: delta_name where
  "SplitDelta_reverseDeltaClass = MergeDelta"

definition SplitDelta_className :: string where
  "SplitDelta_className = ''engine.model.delta.SplitDelta''"

definition SplitDelta_priority :: int where
  "SplitDelta_priority = 5"

text \<open>
  The class object \<^verbatim>\<open>SplitDelta\<close> as the factory sees it: the class it constructs and
  its static properties.
\<close>

record delta_class_obj =
  constructs :: delta_name
  className :: string
  priority :: int

definition SplitDelta_class :: delta_class_obj where
  "SplitDelta_class =
     \<lparr>constructs = SplitDelta, className = SplitDelta_className,
      priority = SplitDelta_priority\<rparr>"

text \<open>
  Modelled from the spec: \<^verbatim>\<open>Delta.getReversed()\<close> (module \<^verbatim>\<open>delta\<close>), the method
  \<^verbatim>\<open>super.getReversed()\<close> calls: the operations are reversed in reverse order, each
  reversed individually, and wrapped in a new delta of the \<^verbatim>\<open>_reverseDeltaClass\<close> of
  the receiver. The reversal \<open>rv\<close> of a single operation (the method
  \<^verbatim>\<open>getReversed\<close> of the operation classes) is a parameter; \<open>cls\<close> is what
  \<^verbatim>\<open>this._reverseDeltaClass\<close> gives for the receiver. The new delta is in no batch.
\<close>

definition Delta_getReversed :: "(operation \<Rightarrow> operation) \<Rightarrow> delta_name \<Rightarrow> delta \<Rightarrow> delta" where
  "Delta_getReversed rv cls this =
     \<lparr>delta_class = cls, operations = rev (map rv (operations this)), batch = None\<rparr>"

text \<open>
  The assignment \<^verbatim>\<open>ops[ i ].isSticky = v\<close>: behind the end of the array \<^verbatim>\<open>ops[ i ]\<close> is
  \<^verbatim>\<open>undefined\<close> and the assignment raises a \<^verbatim>\<open>TypeError\<close>.
\<close>

definition assign_isSticky :: "operation list \<Rightarrow> nat \<Rightarrow> bool \<Rightarrow> error + operation list" where
  "assign_isSticky ops i v =
     (if i < length ops then Inr (ops[i := (ops ! i)\<lparr>isSticky := v\<rparr>])
      else Inl TypeError)"

text \<open>
  \<^verbatim>\<open>getReversed()\<close> of \<^verbatim>\<open>SplitDelta\<close>:
  \<^verbatim>\<open>
  let delta = super.getReversed();
  if ( delta.operations.length > 0 ) {
      delta.operations[ 0 ].isSticky = true;
  }
  return delta;
  \<close>
\<close>

definition SplitDelta_getReversed :: "(operation \<Rightarrow> operation) \<Rightarrow> delta \<Rightarrow> error + delta" where
  "SplitDelta_getReversed rv this =
     (let delta = Delta_getReversed rv SplitDelta_reverseDeltaClass this
      in if length (operations delta) > 0 then
           (case assign_isSticky (operations delta) 0 True of
              Inl e \<Rightarrow> Inl e
            | Inr ops \<Rightarrow> Inr (delta\<lparr>operations := ops\<rparr>))
         else Inr delta)"

subsection \<open>The batch method split\<close>

text \<open>
  \<^verbatim>\<open>register( 'split', function( position ) { ... } )\<close> installs the function as the
  method \<^verbatim>\<open>split\<close> of every batch; \<open>this\<close> is the batch it is called on.
  \<^verbatim>\<open>this.document.applyOperation\<close> is the parameter \<open>applyOperation\<close>: it gives the
  document after the operation, or the error it raises. A \<^verbatim>\<open>throw\<close>, of the method or
  of a function it calls, ends the method with the state reached so far. A position
  without parent element or without offset counts as \<open>InvalidLocation\<close>. The arguments of
  a constructor are evaluated from left to right, before the constructor runs.
  \<^verbatim>\<open>
  const delta = new SplitDelta();
  this.addDelta( delta );
  const splitElement = position.parent;
  if ( !splitElement.parent ) {
      throw new CKEditorError( 'batch-split-root: Root element can not be split.' );
  }
  const copy = new Element( splitElement.name, splitElement.getAttributes() );
  const insert = new InsertOperation( Position.createAfter( splitElement ), copy,
                                      this.document.version );
  delta.addOperation( insert );
  this.document.applyOperation( insert );
  const move = new MoveOperation( position, splitElement.maxOffset - position.offset,
      Position.createFromParentAndOffset( copy, 0 ), this.document.version );
  move.isSticky = true;
  delta.addOperation( move );
  this.document.applyOperation( move );
  return this;
  \<close>
\<close>

definition Batch_split ::
  "(operation \<Rightarrow> document \<Rightarrow> error + document) \<Rightarrow> batch_id \<Rightarrow> position \<Rightarrow> state
     \<Rightarrow> (error + batch_id) \<times> state" where
  "Batch_split applyOperation this pos s =
     (let (delta, s1) = new_SplitDelta s;
          s2 = addDelta this delta s1
      in case Position_parent (document s2) pos of
           None \<Rightarrow> (Inl InvalidLocation, s2)
         | Some splitElement \<Rightarrow>
      (case parent (nodes (document s2) splitElement) of
           None \<Rightarrow> (Inl (CKEditorError ''batch-split-root: Root element can not be split.''), s2)
         | Some _ \<Rightarrow>
      (let (copy, d3) = new_Element (name (nodes (document s2) splitElement))
                          (attributes (nodes (document s2) splitElement)) (document s2);
           s3 = s2\<lparr>document := d3\<rparr>
       in case createAfter (document s3) splitElement of
            Inl e \<Rightarrow> (Inl e, s3)
          | Inr after \<Rightarrow>
      (let ins = new_InsertOperation after copy (version (document s3));
           s4 = addOperation delta ins s3
       in case applyOperation ins (document s4) of
            Inl e \<Rightarrow> (Inl e, s4)
          | Inr d5 \<Rightarrow>
      (let s5 = s4\<lparr>document := d5\<rparr>
       in case Position_offset pos of
            None \<Rightarrow> (Inl InvalidLocation, s5)
          | Some k \<Rightarrow>
      (case createFromParentAndOffset (document s5) copy 0 of
            Inl e \<Rightarrow> (Inl e, s5)
          | Inr target \<Rightarrow>
      (let move = (new_MoveOperation pos
                     (int (maxOffset (nodes (document s5) splitElement)) - int k)
                     target (version (document s5)))\<lparr>isSticky := True\<rparr>;
           s6 = addOperation delta move s5
       in case applyOperation move (document s6) of
            Inl e \<Rightarrow> (Inl e, s6)
          | Inr d7 \<Rightarrow> (Inr this, s6\<lparr>document := d7\<rparr>))))))))"

subsection \<open>The delta factory\<close>

text \<open>
  Modelled from the spec: \<^verbatim>\<open>DeltaFactory.register( deltaClass )\<close> (module
  \<^verbatim>\<open>deltafactory\<close>): the class is associated with its tag, the \<^verbatim>\<open>className\<close>.
  Registering a class again under its tag changes nothing; registering a different
  class under a tag that is taken fails at once.
\<close>

type_synonym registry = "string \<rightharpoonup> delta_class_obj"

datatype registry_error = DuplicateRegistration string

definition DeltaFactory_register :: "delta_class_obj \<Rightarrow> registry \<Rightarrow> registry_error + registry" where
  "DeltaFactory_register cls reg =
     (case reg (className cls) of
        None \<Rightarrow> Inr (reg(className cls \<mapsto> cls))
      | Some c \<Rightarrow> if c = cls then Inr reg else Inl (DuplicateRegistration (className cls)))"

text \<open>The last statement of the module: \<^verbatim>\<open>DeltaFactory.register( SplitDelta )\<close>.\<close>

definition module_init :: "registry \<Rightarrow> registry_error + registry" where
  "module_init reg = DeltaFactory_register SplitDelta_class reg"

subsection \<open>Applying operations\<close>

text \<open>
  Modelled from the spec: \<^verbatim>\<open>Document.applyOperation( operation )\<close> (module \<^verbatim>\<open>document\<close>)
  after section 4.2: it fails with \<open>VersionMismatch\<close> unless the base version of the
  operation is the version of the document, performs the structural mutation, appends
  the operation to the history and increments the version. The mutation is the
  parameter \<open>execute\<close>.
\<close>

definition applyOperation ::
  "(operation_kind \<Rightarrow> document \<Rightarrow> error + document) \<Rightarrow> operation \<Rightarrow> document
     \<Rightarrow> error + document" where
  "applyOperation execute op d =
     (if baseVersion op \<noteq> version d then Inl VersionMismatch
      else case execute (kind op) d of
             Inl e \<Rightarrow> Inl e
           | Inr d' \<Rightarrow> Inr (d'\<lparr>history := history d' @ [op], version := version d' + 1\<rparr>))"

text \<open>The children in the first \<open>k\<close> offsets, and those behind them; a text run is cut.\<close>

fun takeOffsets :: "nat \<Rightarrow> child list \<Rightarrow> child list" where
  "takeOffsets 0 cs = []"
| "takeOffsets k [] = []"
| "takeOffsets k (c # cs) =
     (if width c \<le> k then c # takeOffsets (k - width c) cs
      else (case c of TextRun t \<Rightarrow> [TextRun (take k t)] | ElementChild _ \<Rightarrow> []))"

fun dropOffsets :: "nat \<Rightarrow> child list \<Rightarrow> child list" where
  "dropOffsets 0 cs = cs"
| "dropOffsets k [] = []"
| "dropOffsets k (c # cs) =
     (if width c \<le> k then dropOffsets (k - width c) cs
      else (case c of TextRun t \<Rightarrow> TextRun (drop k t) # cs | ElementChild _ \<Rightarrow> c # cs))"

text \<open>Setting the parent reference of the elements among the given children.\<close>

fun set_parent :: "node_id option \<Rightarrow> child list \<Rightarrow> (node_id \<Rightarrow> element) \<Rightarrow> (node_id \<Rightarrow> element)" where
  "set_parent p [] h = h"
| "set_parent p (ElementChild e # cs) h = set_parent p cs (h(e := (h e)\<lparr>parent := p\<rparr>))"
| "set_parent p (TextRun _ # cs) h = set_parent p cs h"

text \<open>Putting children into an element at an offset.\<close>

definition attach :: "node_id \<Rightarrow> nat \<Rightarrow> child list \<Rightarrow> (node_id \<Rightarrow> element) \<Rightarrow> (node_id \<Rightarrow> element)" where
  "attach e k cs h =
     set_parent (Some e) cs
       (h(e := (h e)\<lparr>children :=
            takeOffsets k (children (h e)) @ cs @ dropOffsets k (children (h e))\<rparr>))"

text \<open>Taking the children in \<open>n\<close> offsets from offset \<open>k\<close> out of an element.\<close>

definition detach :: "node_id \<Rightarrow> nat \<Rightarrow> nat \<Rightarrow> (node_id \<Rightarrow> element) \<Rightarrow> child list \<times> (node_id \<Rightarrow> element)" where
  "detach e k n h =
     (let cs = takeOffsets n (dropOffsets k (children (h e)))
      in (cs, set_parent None cs
                (h(e := (h e)\<lparr>children :=
                     takeOffsets k (children (h e)) @ dropOffsets (k + n) (children (h e))\<rparr>))))"

text \<open>
  A structural mutation for the two operation variants, used to run the method on
  concrete documents: an insert attaches the nodes at its position; a move takes
  \<open>howMany\<close> offsets out of the parent of its source position and attaches them at its
  target position, whose parent is looked up before the removal and whose offset is
  shifted when it lies in the same element behind the removed children. Positions
  without an element, offsets beyond the children, a negative \<open>howMany\<close> and a target
  among the removed children fail with \<open>InvalidLocation\<close>.
\<close>

fun execute :: "operation_kind \<Rightarrow> document \<Rightarrow> error + document" where
  "execute (InsertOperation p ns) d =
     (case (Position_parent d p, Position_offset p) of
        (Some e, Some k) \<Rightarrow>
          if k \<le> maxOffset (nodes d e)
          then Inr (d\<lparr>nodes := attach e k (map ElementChild ns) (nodes d)\<rparr>)
          else Inl InvalidLocation
      | _ \<Rightarrow> Inl InvalidLocation)"
| "execute (MoveOperation src n tgt) d =
     (case (Position_parent d src, Position_offset src,
            Position_parent d tgt, Position_offset tgt) of
        (Some se, Some sk, Some te, Some tk) \<Rightarrow>
          if n < 0 \<or> maxOffset (nodes d se) < sk + nat n \<or> maxOffset (nodes d te) < tk
             \<or> (te = se \<and> sk < tk \<and> tk < sk + nat n)
             \<or> ElementChild te \<in> set (takeOffsets (nat n) (dropOffsets sk (children (nodes d se))))
          then Inl InvalidLocation
          else
            (let (cs, h) = detach se sk (nat n) (nodes d);
                 tk' = (if te = se \<and> sk < tk then tk - nat n else tk)
             in Inr (d\<lparr>nodes := attach te tk' cs h\<rparr>))
      | _ \<Rightarrow> Inl InvalidLocation)"

subsection \<open>Vocabulary of the properties\<close>

text \<open>Applying a list of operations in order, stopping at the first error.\<close>

fun applyOperations ::
  "(operation \<Rightarrow> document \<Rightarrow> error + document) \<Rightarrow> operation list \<Rightarrow> document
     \<Rightarrow> error + document" where
  "applyOperations ap [] d = Inr d"
| "applyOperations ap (op # ops) d =
     (case ap op d of Inl e \<Rightarrow> Inl e | Inr d' \<Rightarrow> applyOperations ap ops d')"

text \<open>
  A document to run the method on: a root element holding one paragraph
  \<^verbatim>\<open><p align="left">abcd</p>\<close>, at version 7; a state with this document and no
  deltas; the position between \<^verbatim>\<open>ab\<close> and \<^verbatim>\<open>cd\<close>, and the position before the
  paragraph, whose parent is the root.
\<close>

definition example_document :: document where
  "example_document =
     \<lparr>version = 7, history = [],
      nodes = (\<lambda>_. \<lparr>name = [], attributes = [], children = [], parent = None\<rparr>)
        (0 := \<lparr>name = ''$root'', attributes = [], children = [ElementChild 1],
                parent = None\<rparr>,
         1 := \<lparr>name = ''p'', attributes = [(''align'', ''left'')],
                children = [TextRun ''abcd''], parent = Some 0\<rparr>),
      next_node = 2\<rparr>"

definition example_state :: state where
  "example_state =
     \<lparr>document = example_document, batches = (\<lambda>_. \<lparr>deltas = []\<rparr>),
      delta_heap = (\<lambda>_. \<lparr>delta_class = Delta, operations = [], batch = None\<rparr>),
      next_delta = 0\<rparr>"

definition example_position :: position where
  "example_position = \<lparr>root = 0, path = [0, 2]\<rparr>"

definition example_root_position :: position where
  "example_root_position = \<lparr>root = 0, path = [0]\<rparr>"

text \<open>
  The operations the split of the example constructs, and a reversal of single
  operations to run \<^verbatim>\<open>getReversed\<close> with: a move back from the target to the source, an
  insert undone by a move of the inserted nodes to the given holding position, both
  stamped with the next version.
\<close>

definition example_insert :: operation where
  "example_insert =
     \<lparr>baseVersion = 7, kind = InsertOperation \<lparr>root = 0, path = [1]\<rparr> [2], isSticky = False\<rparr>"

definition example_move :: operation where
  "example_move =
     \<lparr>baseVersion = 8,
      kind = MoveOperation \<lparr>root = 0, path = [0, 2]\<rparr> 2 \<lparr>root = 0, path = [1, 0]\<rparr>,
      isSticky = True\<rparr>"

fun example_reverse :: "position \<Rightarrow> operation \<Rightarrow> operation" where
  "example_reverse holding op =
     (case kind op of
        MoveOperation src n tgt \<Rightarrow>
          \<lparr>baseVersion = baseVersion op + 1, kind = MoveOperation tgt n src, isSticky = False\<rparr>
      | InsertOperation p ns \<Rightarrow>
          \<lparr>baseVersion = baseVersion op + 1, kind = MoveOperation p (int (length ns)) holding,
           isSticky = False\<rparr>)"

text \<open>Delta objects to read \<^verbatim>\<open>position\<close> from and to reverse, and a holding position.\<close>

definition example_delta :: delta where
  "example_delta =
     \<lparr>delta_class = SplitDelta, operations = [example_insert, example_move], batch = Some 3\<rparr>"

definition empty_delta :: delta where
  "empty_delta = \<lparr>delta_class = SplitDelta, operations = [], batch = Some 3\<rparr>"

definition example_holding :: position where
  "example_holding = \<lparr>root = 9, path = [0]\<rparr>"

section \<open>Properties of the batch method split\<close>

subsection \<open>Running the method\<close>

text \<open>
  A call that returns has passed every step: the position has a parent element that has
  a parent itself, both position constructors and both applications succeeded, and the
  final state is the initial one with the new delta, holding the insert and the move,
  appended to the batch.
\<close>

lemma Batch_split_InrE:
  fixes ap this pos s
  defines "d0 \<equiv> document s"
  defines "dl \<equiv> next_delta s"
  defines "copy \<equiv> next_node (document s)"
  assumes ok: "Batch_split ap this pos s = (Inr b, s')"
  obtains e p d3 after ins d5 k target mv d7 where
    "Position_parent d0 pos = Some e"
    "parent (nodes d0 e) = Some p"
    "d3 = snd (new_Element (name (nodes d0 e)) (attributes (nodes d0 e)) d0)"
    "createAfter d3 e = Inr after"
    "ins = new_InsertOperation after copy (version d0)"
    "ap ins d3 = Inr d5"
    "Position_offset pos = Some k"
    "createFromParentAndOffset d5 copy 0 = Inr target"
    "mv = (new_MoveOperation pos (int (maxOffset (nodes d5 e)) - int k) target
             (version d5))\<lparr>isSticky := True\<rparr>"
    "ap mv d5 = Inr d7"
    "b = this"
    "s' = \<lparr>document = d7,
           batches = (batches s)(this :=
             (batches s this)\<lparr>deltas := deltas (batches s this) @ [dl]\<rparr>),
           delta_heap = (delta_heap s)(dl :=
             \<lparr>delta_class = SplitDelta, operations = [ins, mv], batch = Some this\<rparr>),
           next_delta = Suc dl\<rparr>"
  using ok
  unfolding Batch_split_def new_SplitDelta_def addDelta_def addOperation_def
    d0_def dl_def copy_def
  by (auto simp: Let_def new_Element_def split: option.splits sum.splits prod.splits)

text \<open>Conversely, a call whose steps all succeed returns the batch.\<close>

lemma Batch_split_returns:
  fixes ap this pos s e
  defines "d3 \<equiv> snd (new_Element (name (nodes (document s) e))
                        (attributes (nodes (document s) e)) (document s))"
  assumes "Position_parent (document s) pos = Some e"
    and "parent (nodes (document s) e) = Some p"
    and "createAfter d3 e = Inr after"
    and "ap (new_InsertOperation after (next_node (document s)) (version (document s))) d3
           = Inr d5"
    and "Position_offset pos = Some k"
    and "createFromParentAndOffset d5 (next_node (document s)) 0 = Inr target"
    and "ap ((new_MoveOperation pos (int (maxOffset (nodes d5 e)) - int k) target
               (version d5))\<lparr>isSticky := True\<rparr>) d5 = Inr d7"
  shows "fst (Batch_split ap this pos s) = Inr this"
    and "document (snd (Batch_split ap this pos s)) = d7"
  using assms(2-)
  unfolding Batch_split_def new_SplitDelta_def addDelta_def addOperation_def d3_def
  by (simp_all add: Let_def new_Element_def)

text \<open>A call on a position in a root element stops at the check, after \<^verbatim>\<open>addDelta\<close>.\<close>

lemma Batch_split_root:
  assumes "Position_parent (document s) pos = Some e"
    and "parent (nodes (document s) e) = None"
  shows "Batch_split ap this pos s =
     (Inl (CKEditorError ''batch-split-root: Root element can not be split.''),
      \<lparr>document = document s,
       batches = (batches s)(this :=
         (batches s this)\<lparr>deltas := deltas (batches s this) @ [next_delta s]\<rparr>),
       delta_heap = (delta_heap s)(next_delta s :=
         \<lparr>delta_class = SplitDelta, operations = [], batch = Some this\<rparr>),
       next_delta = Suc (next_delta s)\<rparr>)"
  using assms
  unfolding Batch_split_def new_SplitDelta_def addDelta_def
  by (simp add: Let_def)







text \<open>The structural mutation leaves the version alone, so an application adds one.\<close>

lemma execute_version: "execute k d = Inr d' \<Longrightarrow> version d' = version d"
  by (cases k) (auto simp: Let_def split: option.splits if_splits prod.splits)

lemma applyOperation_increments:
  "\<forall>op d d'. applyOperation execute op d = Inr d' \<longrightarrow> version d' = version d + 1"
  by (auto simp: applyOperation_def split: if_splits sum.splits dest: execute_version)

subsection \<open>The example, run\<close>

lemmas example_defs =
  example_state_def example_document_def example_position_def example_root_position_def
  example_insert_def example_move_def

lemmas split_defs =
  Batch_split_def new_SplitDelta_def addDelta_def addOperation_def new_Element_def
  new_InsertOperation_def new_MoveOperation_def createAfter_def createFromParentAndOffset_def
  getPath_def Position_parent_def Position_offset_def maxOffset_def applyOperation_def
  attach_def detach_def Let_def

lemma example_split_fst:
  "fst (Batch_split (applyOperation execute) 3 example_position example_state) = Inr 3"
  by (simp add: example_defs split_defs eval_nat_numeral)

lemma example_split:
  "Batch_split (applyOperation execute) 3 example_position example_state =
     (Inr 3, snd (Batch_split (applyOperation execute) 3 example_position example_state))"
  using example_split_fst by (simp add: prod_eq_iff)


text \<open>
  The split of \<^verbatim>\<open><p>ab|cd</p>\<close> gives \<^verbatim>\<open><p>ab</p><p>cd</p>\<close>, the second paragraph with the
  name and the attributes of the first; two operations are in the history.
\<close>

lemma example_split_document:
  "version (document (snd (Batch_split (applyOperation execute) 3 example_position
      example_state))) = 9"
  "history (document (snd (Batch_split (applyOperation execute) 3 example_position
      example_state))) = [example_insert, example_move]"
  "map (nodes (document (snd (Batch_split (applyOperation execute) 3 example_position
      example_state)))) [0, 1, 2] =
     [\<lparr>name = ''$root'', attributes = [], children = [ElementChild 1, ElementChild 2],
       parent = None\<rparr>,
      \<lparr>name = ''p'', attributes = [(''align'', ''left'')], children = [TextRun ''ab''],
       parent = Some 0\<rparr>,
      \<lparr>name = ''p'', attributes = [(''align'', ''left'')], children = [TextRun ''cd''],
       parent = Some 0\<rparr>]"
  by (simp_all add: example_defs split_defs eval_nat_numeral)

lemma example_parent:
  "Position_parent (document example_state) example_root_position = Some 0"
  by (simp add: example_defs Position_parent_def)

lemma example_root: "parent (nodes (document example_state) 0) = None"
  by (simp add: example_defs)

subsection \<open>Splitting a root element\<close>

text \<open>
  Claim C2. For every position whose parent element is a root (it has no parent), the
  method fails with the error raised as \<^verbatim>\<open>batch-split-root\<close>, and the document is left as
  it was: its version, its history and its elements are unchanged, and no operation is
  applied, the outcome being the same whatever \<^verbatim>\<open>applyOperation\<close> does.
\<close>

theorem split_root_rejected:
  assumes "Position_parent (document s) pos = Some e"
    and "parent (nodes (document s) e) = None"
  shows "fst (Batch_split ap this pos s) =
           Inl (CKEditorError ''batch-split-root: Root element can not be split.'')
       \<and> take 16 ''batch-split-root: Root element can not be split.'' = ''batch-split-root''
       \<and> document (snd (Batch_split ap this pos s)) = document s
       \<and> version (document (snd (Batch_split ap this pos s))) = version (document s)
       \<and> history (document (snd (Batch_split ap this pos s))) = history (document s)
       \<and> (\<forall>ap'. Batch_split ap' this pos s = Batch_split ap this pos s)"
  using assms by (simp add: Batch_split_root)

theorem split_root_rejected_witness:
  "Position_parent (document example_state) example_root_position = Some 0
   \<and> parent (nodes (document example_state) 0) = None
   \<and> fst (Batch_split (applyOperation execute) 3 example_root_position example_state) =
        Inl (CKEditorError ''batch-split-root: Root element can not be split.'')
   \<and> document (snd (Batch_split (applyOperation execute) 3 example_root_position
        example_state)) = document example_state"
proof -
  note r = split_root_rejected [OF example_parent example_root, of "applyOperation execute" 3]
  from r have "fst (Batch_split (applyOperation execute) 3 example_root_position example_state)
      = Inl (CKEditorError ''batch-split-root: Root element can not be split.'')"
    by (rule conjunct1)
  moreover from r have "document (snd (Batch_split (applyOperation execute) 3
      example_root_position example_state)) = document example_state"
    by blast
  ultimately show ?thesis
    using example_parent example_root by blast
qed

text \<open>
  Claim C10. When the method fails because the element is a root, the batch has been
  changed all the same: \<^verbatim>\<open>addDelta\<close> ran before the check, so a new split delta without
  operations is the last delta of the batch, owned by it; only the document is as it
  was before the call.
\<close>

theorem split_root_batch_mutated:
  fixes ap this pos s
  defines "s' \<equiv> snd (Batch_split ap this pos s)"
  assumes "Position_parent (document s) pos = Some e"
    and "parent (nodes (document s) e) = None"
  shows "(\<exists>msg. fst (Batch_split ap this pos s) = Inl (CKEditorError msg))
       \<and> deltas (batches s' this) = deltas (batches s this) @ [next_delta s]
       \<and> delta_heap s' (next_delta s) =
           \<lparr>delta_class = SplitDelta, operations = [], batch = Some this\<rparr>
       \<and> deltas (batches s' this) \<noteq> deltas (batches s this)
       \<and> document s' = document s"
  using assms(2,3) unfolding s'_def by (simp add: Batch_split_root)

theorem split_root_batch_mutated_witness:
  "Position_parent (document example_state) example_root_position = Some 0
   \<and> parent (nodes (document example_state) 0) = None
   \<and> deltas (batches (snd (Batch_split (applyOperation execute) 3 example_root_position
        example_state)) 3) = [0]
   \<and> delta_heap (snd (Batch_split (applyOperation execute) 3 example_root_position
        example_state)) 0 = \<lparr>delta_class = SplitDelta, operations = [], batch = Some 3\<rparr>
   \<and> deltas (batches example_state 3) = []"
proof -
  note r = split_root_batch_mutated [OF example_parent example_root,
      of "applyOperation execute" 3]
  have d: "deltas (batches example_state 3) = []" and n: "next_delta example_state = 0"
    by (simp_all add: example_state_def)
  from r have "deltas (batches (snd (Batch_split (applyOperation execute) 3
      example_root_position example_state)) 3) = deltas (batches example_state 3)
        @ [next_delta example_state]"
    by blast
  then have a: "deltas (batches (snd (Batch_split (applyOperation execute) 3
      example_root_position example_state)) 3) = [0]"
    by (simp add: d n)
  from r have "delta_heap (snd (Batch_split (applyOperation execute) 3 example_root_position
      example_state)) (next_delta example_state)
        = \<lparr>delta_class = SplitDelta, operations = [], batch = Some 3\<rparr>"
    by blast
  then have b: "delta_heap (snd (Batch_split (applyOperation execute) 3
      example_root_position example_state)) 0
        = \<lparr>delta_class = SplitDelta, operations = [], batch = Some 3\<rparr>"
    by (simp add: n)
  from a b d example_parent example_root show ?thesis
    by blast
qed

subsection \<open>The operations of a split\<close>





text \<open>
  Claim C4. For every call of the method that returns, the base version of the insert
  operation is the version of the document at the start of the call, and the base
  version of the move operation is the version of the document after the insert was
  applied. Provided \<^verbatim>\<open>applyOperation\<close> increments the version by exactly one, the base
  version of the move is the base version of the insert plus one, and the document
  ends one version behind the move.
\<close>

theorem split_version_lineage:
  assumes ok: "Batch_split ap this pos s = (Inr b, s')"
    and inc: "\<forall>op d d'. ap op d = Inr d' \<longrightarrow> version d' = version d + 1"
  shows "\<exists>ins mv d3 d5. operations (delta_heap s' (next_delta s)) = [ins, mv] \<and>
      baseVersion ins = version (document s) \<and>
      ap ins d3 = Inr d5 \<and> baseVersion mv = version d5 \<and>
      baseVersion mv = baseVersion ins + 1 \<and>
      version (document s') = baseVersion mv + 1"
proof -
  from ok obtain e p d3 after ins d5 k target mv d7 where
    e: "Position_parent (document s) pos = Some e"
    and p: "parent (nodes (document s) e) = Some p"
    and d3: "d3 = snd (new_Element (name (nodes (document s) e))
                        (attributes (nodes (document s) e)) (document s))"
    and after: "createAfter d3 e = Inr after"
    and ins: "ins = new_InsertOperation after (next_node (document s)) (version (document s))"
    and ap1: "ap ins d3 = Inr d5"
    and k: "Position_offset pos = Some k"
    and target: "createFromParentAndOffset d5 (next_node (document s)) 0 = Inr target"
    and mv: "mv = (new_MoveOperation pos (int (maxOffset (nodes d5 e)) - int k) target
                     (version d5))\<lparr>isSticky := True\<rparr>"
    and ap2: "ap mv d5 = Inr d7"
    and b: "b = this"
    and s': "s' = \<lparr>document = d7,
           batches = (batches s)(this :=
             (batches s this)\<lparr>deltas := deltas (batches s this) @ [next_delta s]\<rparr>),
           delta_heap = (delta_heap s)(next_delta s :=
             \<lparr>delta_class = SplitDelta, operations = [ins, mv], batch = Some this\<rparr>),
           next_delta = Suc (next_delta s)\<rparr>"
    by (rule Batch_split_InrE)
  have v3: "version d3 = version (document s)"
    using d3 by (simp add: new_Element_def)
  have v5: "version d5 = version (document s) + 1"
    using inc ap1 v3 by auto
  have v7: "version d7 = version d5 + 1"
    using inc ap2 by auto
  have ops: "operations (delta_heap s' (next_delta s)) = [ins, mv]"
    using s' by simp
  have bi: "baseVersion ins = version (document s)"
    using ins by (simp add: new_InsertOperation_def)
  have bm: "baseVersion mv = version d5"
    using mv by (simp add: new_MoveOperation_def)
  have "baseVersion mv = baseVersion ins + 1"
    using bi bm v5 by simp
  moreover have "version (document s') = baseVersion mv + 1"
    using s' v7 bm by simp
  ultimately show ?thesis
    using ops bi ap1 bm by blast
qed

theorem split_version_lineage_witness:
  "Batch_split (applyOperation execute) 3 example_position example_state =
     (Inr 3, snd (Batch_split (applyOperation execute) 3 example_position example_state))
   \<and> version (document example_state) = 7
   \<and> map baseVersion (operations (delta_heap (snd (Batch_split (applyOperation execute) 3
        example_position example_state)) 0)) = [7, 8]
   \<and> version (document (snd (Batch_split (applyOperation execute) 3 example_position
        example_state))) = 9"
proof -
  have n: "next_delta example_state = 0" and v: "version (document example_state) = 7"
    by (simp_all add: example_state_def example_document_def)
  from split_version_lineage [OF example_split applyOperation_increments]
  obtain ins mv where
    ops: "operations (delta_heap (snd (Batch_split (applyOperation execute) 3
            example_position example_state)) (next_delta example_state)) = [ins, mv]"
    and bi: "baseVersion ins = version (document example_state)"
    and bm: "baseVersion mv = baseVersion ins + 1"
    and vd: "version (document (snd (Batch_split (applyOperation execute) 3
            example_position example_state))) = baseVersion mv + 1"
    by blast
  have "map baseVersion (operations (delta_heap (snd (Batch_split (applyOperation execute) 3
        example_position example_state)) 0)) = [7, 8]"
    using ops bi bm by (simp add: n v)
  moreover have "version (document (snd (Batch_split (applyOperation execute) 3
        example_position example_state))) = 9"
    using vd bi bm by (simp add: v)
  ultimately show ?thesis
    using example_split v by blast
qed

text \<open>
  Claim C8. Every call of the method that returns gives back the batch it was called
  on, and has constructed and applied exactly one delta: the deltas of the batch are
  the former ones followed by one new delta object, a split delta owned by the batch;
  no other batch and no other delta object has changed; and the document after the
  call is the document with the new element, with the operations of the new delta
  applied to it in order.
\<close>

theorem split_one_delta_same_batch:
  assumes ok: "Batch_split ap this pos s = (Inr b, s')"
  shows "b = this \<and>
      deltas (batches s' this) = deltas (batches s this) @ [next_delta s] \<and>
      (\<forall>b'. b' \<noteq> this \<longrightarrow> batches s' b' = batches s b') \<and>
      (\<forall>dl. dl \<noteq> next_delta s \<longrightarrow> delta_heap s' dl = delta_heap s dl) \<and>
      next_delta s' = Suc (next_delta s) \<and>
      delta_class (delta_heap s' (next_delta s)) = SplitDelta \<and>
      batch (delta_heap s' (next_delta s)) = Some this \<and>
      length (operations (delta_heap s' (next_delta s))) = 2 \<and>
      (\<exists>e. Position_parent (document s) pos = Some e \<and>
           applyOperations ap (operations (delta_heap s' (next_delta s)))
             (snd (new_Element (name (nodes (document s) e))
                     (attributes (nodes (document s) e)) (document s)))
           = Inr (document s'))"
proof -
  from ok obtain e p d3 after ins d5 k target mv d7 where
    e: "Position_parent (document s) pos = Some e"
    and p: "parent (nodes (document s) e) = Some p"
    and d3: "d3 = snd (new_Element (name (nodes (document s) e))
                        (attributes (nodes (document s) e)) (document s))"
    and after: "createAfter d3 e = Inr after"
    and ins: "ins = new_InsertOperation after (next_node (document s)) (version (document s))"
    and ap1: "ap ins d3 = Inr d5"
    and k: "Position_offset pos = Some k"
    and target: "createFromParentAndOffset d5 (next_node (document s)) 0 = Inr target"
    and mv: "mv = (new_MoveOperation pos (int (maxOffset (nodes d5 e)) - int k) target
                     (version d5))\<lparr>isSticky := True\<rparr>"
    and ap2: "ap mv d5 = Inr d7"
    and b: "b = this"
    and s': "s' = \<lparr>document = d7,
           batches = (batches s)(this :=
             (batches s this)\<lparr>deltas := deltas (batches s this) @ [next_delta s]\<rparr>),
           delta_heap = (delta_heap s)(next_delta s :=
             \<lparr>delta_class = SplitDelta, operations = [ins, mv], batch = Some this\<rparr>),
           next_delta = Suc (next_delta s)\<rparr>"
    by (rule Batch_split_InrE)
  have run: "applyOperations ap [ins, mv] d3 = Inr d7"
    using ap1 ap2 by simp
  have "applyOperations ap (operations (delta_heap s' (next_delta s)))
             (snd (new_Element (name (nodes (document s) e))
                     (attributes (nodes (document s) e)) (document s)))
           = Inr (document s')"
    using run s' d3 by simp
  with e have "\<exists>e. Position_parent (document s) pos = Some e \<and>
           applyOperations ap (operations (delta_heap s' (next_delta s)))
             (snd (new_Element (name (nodes (document s) e))
                     (attributes (nodes (document s) e)) (document s)))
           = Inr (document s')"
    by blast
  then show ?thesis
    using b s' by simp
qed

theorem split_one_delta_same_batch_witness:
  "Batch_split (applyOperation execute) 3 example_position example_state =
     (Inr 3, snd (Batch_split (applyOperation execute) 3 example_position example_state))
   \<and> deltas (batches example_state 3) = []
   \<and> deltas (batches (snd (Batch_split (applyOperation execute) 3 example_position
        example_state)) 3) = [0]
   \<and> delta_class (delta_heap (snd (Batch_split (applyOperation execute) 3 example_position
        example_state)) 0) = SplitDelta"
proof -
  have n: "next_delta example_state = 0" and d: "deltas (batches example_state 3) = []"
    by (simp_all add: example_state_def)
  note r = split_one_delta_same_batch [OF example_split]
  from r have "deltas (batches (snd (Batch_split (applyOperation execute) 3 example_position
        example_state)) 3) = deltas (batches example_state 3) @ [next_delta example_state]"
    by blast
  then have a: "deltas (batches (snd (Batch_split (applyOperation execute) 3
        example_position example_state)) 3) = [0]"
    by (simp add: n d)
  from r have "delta_class (delta_heap (snd (Batch_split (applyOperation execute) 3
        example_position example_state)) (next_delta example_state)) = SplitDelta"
    by blast
  then have c: "delta_class (delta_heap (snd (Batch_split (applyOperation execute) 3
        example_position example_state)) 0) = SplitDelta"
    by (simp add: n)
  from a c d example_split show ?thesis
    by blast
qed

section \<open>Properties of the class SplitDelta\<close>

text \<open>
  Claim C5. For every split delta with at least one operation, \<^verbatim>\<open>getReversed()\<close>
  returns the delta the reversal of the base class produces (a merge delta, the
  \<^verbatim>\<open>_reverseDeltaClass\<close>, holding the reversed operations in reverse order) with the flag
  \<^verbatim>\<open>isSticky\<close> of its first operation set to true, and nothing else changed: the first
  operation is the sticky reversal of the last operation of the split delta, the others
  are the reversals of the operations before it, last to first.
\<close>

theorem SplitDelta_getReversed_sticky:
  fixes rv this
  defines "base \<equiv> Delta_getReversed rv SplitDelta_reverseDeltaClass this"
  assumes ne: "operations this \<noteq> []"
  shows "\<exists>r. SplitDelta_getReversed rv this = Inr r \<and>
      delta_class base = MergeDelta \<and>
      operations base = rev (map rv (operations this)) \<and>
      r = base\<lparr>operations :=
            (operations base)[0 := (operations base ! 0)\<lparr>isSticky := True\<rparr>]\<rparr> \<and>
      delta_class r = MergeDelta \<and>
      operations r =
        (rv (last (operations this)))\<lparr>isSticky := True\<rparr>
          # rev (map rv (butlast (operations this))) \<and>
      isSticky (operations r ! 0)"
proof -
  from ne obtain ops x where ops: "operations this = ops @ [x]"
    by (metis rev_exhaust)
  have b: "operations base = rv x # rev (map rv ops)"
    by (simp add: base_def Delta_getReversed_def ops)
  have r: "SplitDelta_getReversed rv this =
      Inr (base\<lparr>operations :=
             (operations base)[0 := (operations base ! 0)\<lparr>isSticky := True\<rparr>]\<rparr>)"
    using b
    by (simp add: SplitDelta_getReversed_def assign_isSticky_def Let_def base_def [symmetric])
  have c: "delta_class base = MergeDelta"
    by (simp add: base_def Delta_getReversed_def SplitDelta_reverseDeltaClass_def)
  show ?thesis
    using r b c by (simp add: ops base_def Delta_getReversed_def)
qed

theorem SplitDelta_getReversed_sticky_witness:
  "operations example_delta \<noteq> [] \<and>
   (\<exists>r. SplitDelta_getReversed (example_reverse example_holding) example_delta = Inr r \<and>
      delta_class r = MergeDelta \<and>
      operations r =
        [\<lparr>baseVersion = 9,
          kind = MoveOperation \<lparr>root = 0, path = [1, 0]\<rparr> 2 \<lparr>root = 0, path = [0, 2]\<rparr>,
          isSticky = True\<rparr>,
         \<lparr>baseVersion = 8,
          kind = MoveOperation \<lparr>root = 0, path = [1]\<rparr> 1 \<lparr>root = 9, path = [0]\<rparr>,
          isSticky = False\<rparr>])"
proof -
  have h: "operations example_delta \<noteq> []"
    by (simp add: example_delta_def)
  from SplitDelta_getReversed_sticky [OF h, of "example_reverse example_holding"]
  obtain r where
    r: "SplitDelta_getReversed (example_reverse example_holding) example_delta = Inr r"
    and c: "delta_class r = MergeDelta"
    and o: "operations r =
        (example_reverse example_holding (last (operations example_delta)))
          \<lparr>isSticky := True\<rparr>
          # rev (map (example_reverse example_holding) (butlast (operations example_delta)))"
    by blast
  have "operations r =
        [\<lparr>baseVersion = 9,
          kind = MoveOperation \<lparr>root = 0, path = [1, 0]\<rparr> 2 \<lparr>root = 0, path = [0, 2]\<rparr>,
          isSticky = True\<rparr>,
         \<lparr>baseVersion = 8,
          kind = MoveOperation \<lparr>root = 0, path = [1]\<rparr> 1 \<lparr>root = 9, path = [0]\<rparr>,
          isSticky = False\<rparr>]"
    unfolding o
    by (simp add: example_delta_def example_insert_def example_move_def example_holding_def)
  with h r c show ?thesis
    by blast
qed

text \<open>
  Claim C9. \<^verbatim>\<open>getReversed()\<close> on a split delta without operations does not fail and sets
  no flag: the assignment is guarded by the reversed delta having an operation, so the
  result is the reversed delta of the base class as it is, a merge delta without
  operations. The method raises no error on any delta.
\<close>

theorem SplitDelta_getReversed_empty:
  assumes "operations this = []"
  shows "SplitDelta_getReversed rv this =
           Inr (Delta_getReversed rv SplitDelta_reverseDeltaClass this)
       \<and> SplitDelta_getReversed rv this =
           Inr \<lparr>delta_class = MergeDelta, operations = [], batch = None\<rparr>
       \<and> (\<forall>d e. SplitDelta_getReversed rv d \<noteq> Inl e)"
  using assms
  by (auto simp: SplitDelta_getReversed_def Delta_getReversed_def assign_isSticky_def Let_def
        SplitDelta_reverseDeltaClass_def split: if_splits)

theorem SplitDelta_getReversed_empty_witness:
  "operations empty_delta = [] \<and>
   SplitDelta_getReversed (example_reverse example_holding) empty_delta =
     Inr \<lparr>delta_class = MergeDelta, operations = [], batch = None\<rparr>"
proof -
  have h: "operations empty_delta = []"
    by (simp add: empty_delta_def)
  from SplitDelta_getReversed_empty [OF h, of "example_reverse example_holding"] h
  show ?thesis
    by blast
qed

text \<open>
  Claim C7. The position of a split delta is derived from its operations and stored
  nowhere else: when the delta has a second operation, \<^verbatim>\<open>position\<close> is the
  \<^verbatim>\<open>sourcePosition\<close> of that operation, the source position of the move where it is a move
  operation; when the delta has fewer than two operations, \<^verbatim>\<open>position\<close> is \<^verbatim>\<open>null\<close>; and two
  deltas with the same operations have the same position.
\<close>

theorem SplitDelta_position_derived:
  "(1 < length (operations this) \<longrightarrow>
      moveOperation this = Some (operations this ! 1) \<and>
      SplitDelta_position this = sourcePosition (operations this ! 1)) \<and>
   (\<forall>src n tgt. 1 < length (operations this)
        \<and> kind (operations this ! 1) = MoveOperation src n tgt
      \<longrightarrow> SplitDelta_position this = Value src) \<and>
   (length (operations this) < 2 \<longrightarrow>
      moveOperation this = None \<and> SplitDelta_position this = Null) \<and>
   (\<forall>other. operations other = operations this \<longrightarrow>
      SplitDelta_position other = SplitDelta_position this)"
  by (auto simp: SplitDelta_position_def moveOperation_def)

theorem SplitDelta_position_derived_witness:
  "1 < length (operations example_delta) \<and>
   SplitDelta_position example_delta = Value \<lparr>root = 0, path = [0, 2]\<rparr> \<and>
   length (operations empty_delta) < 2 \<and>
   SplitDelta_position empty_delta = Null"
proof -
  have two: "1 < length (operations example_delta)"
    by (simp add: example_delta_def)
  have none: "length (operations empty_delta) < 2"
    by (simp add: empty_delta_def)
  from SplitDelta_position_derived [of example_delta] two
  have "SplitDelta_position example_delta = sourcePosition (operations example_delta ! 1)"
    by blast
  then have p: "SplitDelta_position example_delta = Value \<lparr>root = 0, path = [0, 2]\<rparr>"
    by (simp add: example_delta_def example_move_def)
  from SplitDelta_position_derived [of empty_delta] none
  have "SplitDelta_position empty_delta = Null"
    by blast
  with two none p show ?thesis
    by blast
qed

text \<open>
  Claim C6. The class declares its three pieces of metadata: the tag \<^verbatim>\<open>className\<close> is
  \<^verbatim>\<open>engine.model.delta.SplitDelta\<close>, \<^verbatim>\<open>_priority\<close> is the integer 5, and
  \<^verbatim>\<open>_reverseDeltaClass\<close> is the class \<^verbatim>\<open>MergeDelta\<close>. The last statement of the module
  registers the class in the delta factory under that tag: from the empty registry, and
  from any registry that holds no other class under the tag, the registry after it
  holds the class under the tag and is otherwise as before.
\<close>

theorem SplitDelta_metadata:
  "SplitDelta_className = ''engine.model.delta.SplitDelta'' \<and>
   SplitDelta_priority = 5 \<and>
   SplitDelta_reverseDeltaClass = MergeDelta \<and>
   className SplitDelta_class = ''engine.model.delta.SplitDelta'' \<and>
   priority SplitDelta_class = 5 \<and>
   constructs SplitDelta_class = SplitDelta \<and>
   module_init Map.empty = Inr [''engine.model.delta.SplitDelta'' \<mapsto> SplitDelta_class] \<and>
   (\<forall>reg. (\<forall>c. reg ''engine.model.delta.SplitDelta'' = Some c \<longrightarrow> c = SplitDelta_class) \<longrightarrow>
      (\<exists>reg'. module_init reg = Inr reg' \<and>
         reg' ''engine.model.delta.SplitDelta'' = Some SplitDelta_class \<and>
         (\<forall>tag. tag \<noteq> ''engine.model.delta.SplitDelta'' \<longrightarrow> reg' tag = reg tag)))"
  by (auto simp: SplitDelta_className_def SplitDelta_priority_def
        SplitDelta_reverseDeltaClass_def SplitDelta_class_def module_init_def
        DeltaFactory_register_def split: option.splits)

theorem SplitDelta_metadata_witness:
  "\<exists>reg'. module_init Map.empty = Inr reg' \<and>
      reg' ''engine.model.delta.SplitDelta'' = Some SplitDelta_class"
proof -
  have h: "\<forall>c. (Map.empty :: registry) ''engine.model.delta.SplitDelta'' = Some c
             \<longrightarrow> c = SplitDelta_class"
    by simp
  from SplitDelta_metadata have "\<forall>reg.
      (\<forall>c. reg ''engine.model.delta.SplitDelta'' = Some c \<longrightarrow> c = SplitDelta_class) \<longrightarrow>
      (\<exists>reg'. module_init reg = Inr reg' \<and>
         reg' ''engine.model.delta.SplitDelta'' = Some SplitDelta_class \<and>
         (\<forall>tag. tag \<noteq> ''engine.model.delta.SplitDelta'' \<longrightarrow> reg' tag = reg tag))"
    by blast
  then have "(\<forall>c. (Map.empty :: registry) ''engine.model.delta.SplitDelta'' = Some c
             \<longrightarrow> c = SplitDelta_class) \<longrightarrow>
      (\<exists>reg'. module_init Map.empty = Inr reg' \<and>
         reg' ''engine.model.delta.SplitDelta'' = Some SplitDelta_class \<and>
         (\<forall>tag. tag \<noteq> ''engine.model.delta.SplitDelta'' \<longrightarrow> reg' tag = Map.empty tag))"
    by (rule spec)
  with h obtain reg' where "module_init Map.empty = Inr reg'"
    and "reg' ''engine.model.delta.SplitDelta'' = Some SplitDelta_class"
    by blast
  then show ?thesis
    by blast
qed

end
